theory Spec2Isabelle
  imports Complex_Main
begin

section \<open>Python values the library works with\<close>

text \<open>
  The exceptions that \<^verbatim>\<open>lms.py\<close> can let escape. \<open>Untyped\<close> is not a Python
  exception: it marks a backing file that puts, in an attribute, a value of a type
  the records below cannot hold (a number as a title, say). Python keeps such a
  value in the object; the model has no image for it and says so.
\<close>

datatype error =
    KeyError | ValueError | TypeError | AttributeError | OverflowError
  | JSONDecodeError | Untyped

text \<open>
  What \<^verbatim>\<open>json.load\<close> returns. An object is a Python dict: an association
  list in insertion order. Numbers are rationals (NaN and the infinities are left
  out); the library only ever tests one for truth.
\<close>

datatype json =
    JNull | JBool bool | JNum rat | JStr string
  | JArr "json list" | JObj "(string \<times> json) list"

subsection \<open>Dictionaries\<close>

text \<open>
  A dict is an association list in insertion order. \<^verbatim>\<open>d[k] = v\<close> replaces
  the value of a key in place and appends a new key at the end.
\<close>

definition dict_get :: "('k \<times> 'v) list \<Rightarrow> 'k \<Rightarrow> 'v option" where
  "dict_get d k = map_of d k"

definition dict_keys :: "('k \<times> 'v) list \<Rightarrow> 'k list" where
  "dict_keys d = map fst d"

definition dict_values :: "('k \<times> 'v) list \<Rightarrow> 'v list" where
  "dict_values d = map snd d"

fun dict_set :: "'k \<Rightarrow> 'v \<Rightarrow> ('k \<times> 'v) list \<Rightarrow> ('k \<times> 'v) list" where
  "dict_set k v [] = [(k, v)]"
| "dict_set k v ((k', v') # d) =
     (if k' = k then (k, v) # d else (k', v') # dict_set k v d)"

definition dict_ok :: "('k \<times> 'v) list \<Rightarrow> bool" where
  "dict_ok d = distinct (dict_keys d)"

subsection \<open>Strings\<close>

text \<open>
  \<^verbatim>\<open>str.lower()\<close> on the ASCII letters (characters are bytes here; Python also
  lowers the cased characters beyond ASCII), and the substring test \<^verbatim>\<open>a in b\<close>.
\<close>

definition lower_char :: "char \<Rightarrow> char" where
  "lower_char c =
     (let n = (of_char c :: nat) in if 65 \<le> n \<and> n \<le> 90 then char_of (n + 32) else c)"

definition lower :: "string \<Rightarrow> string" where
  "lower s = map lower_char s"

fun startswith :: "'a list \<Rightarrow> 'a list \<Rightarrow> bool" where
  "startswith [] s = True"
| "startswith (p # ps) [] = False"
| "startswith (p # ps) (c # cs) = (p = c \<and> startswith ps cs)"

fun str_in :: "'a list \<Rightarrow> 'a list \<Rightarrow> bool" where
  "str_in sub [] = (sub = [])"
| "str_in sub (c # cs) = (startswith sub (c # cs) \<or> str_in sub cs)"

subsection \<open>Dates and the clock\<close>

text \<open>
  A \<^verbatim>\<open>datetime\<close> is the number of microseconds since 0001-01-01T00:00:00, the
  smallest one Python has; the largest is 9999-12-31T23:59:59.999999. A date is its
  proleptic Gregorian ordinal, 1 for 0001-01-01, as \<^verbatim>\<open>date.toordinal()\<close> counts.
\<close>

definition us_per_day :: nat where
  "us_per_day = 86400000000"

definition max_ordinal :: nat where
  "max_ordinal = 3652059"

definition datetime_max :: nat where
  "datetime_max = max_ordinal * us_per_day - 1"

definition toordinal :: "nat \<Rightarrow> nat" where
  "toordinal t = t div us_per_day + 1"

definition midnight :: "nat \<Rightarrow> nat" where
  "midnight ordinal = (ordinal - 1) * us_per_day"

text \<open>\<^verbatim>\<open>t + timedelta(days=n)\<close>: OverflowError beyond \<^verbatim>\<open>datetime.max\<close>.\<close>

definition add_days :: "nat \<Rightarrow> nat \<Rightarrow> error + nat" where
  "add_days t n =
     (if t + n * us_per_day \<le> datetime_max then Inr (t + n * us_per_day)
      else Inl OverflowError)"

text \<open>\<^verbatim>\<open>(t - due).days\<close>: a timedelta's days are the floor of the difference.\<close>

definition timedelta_days :: "nat \<Rightarrow> nat \<Rightarrow> int" where
  "timedelta_days t due = (int t - int due) div int us_per_day"

definition is_leap :: "nat \<Rightarrow> bool" where
  "is_leap y = (y mod 4 = 0 \<and> (y mod 100 \<noteq> 0 \<or> y mod 400 = 0))"

definition month_lengths :: "nat \<Rightarrow> nat list" where
  "month_lengths y =
     [31, if is_leap y then 29 else 28, 31, 30, 31, 30, 31, 31, 30, 31, 30, 31]"

definition days_before_year :: "nat \<Rightarrow> nat" where
  "days_before_year y =
     (let p = y - 1 in p * 365 + p div 4 - p div 100 + p div 400)"

definition days_before_month :: "nat \<Rightarrow> nat \<Rightarrow> nat" where
  "days_before_month y m = sum_list (take (m - 1) (month_lengths y))"

definition ymd2ord :: "nat \<Rightarrow> nat \<Rightarrow> nat \<Rightarrow> nat" where
  "ymd2ord y m d = days_before_year y + days_before_month y m + d"

text \<open>The month and the day of the month of the \<open>k\<close>-th day (from 0) of a year.\<close>

fun month_day :: "nat list \<Rightarrow> nat \<Rightarrow> nat \<Rightarrow> nat \<times> nat" where
  "month_day [] m k = (m, k + 1)"
| "month_day (l # ls) m k = (if k < l then (m, k + 1) else month_day ls (m + 1) (k - l))"

definition ord2ymd :: "nat \<Rightarrow> nat \<times> nat \<times> nat" where
  "ord2ymd n =
     (let n0 = n - 1;
          n400 = n0 div 146097; r400 = n0 mod 146097;
          n100 = r400 div 36524; r100 = r400 mod 36524;
          n4 = r100 div 1461; r4 = r100 mod 1461;
          n1 = r4 div 365; r1 = r4 mod 365;
          y = n400 * 400 + n100 * 100 + n4 * 4 + n1 + 1
      in if n1 = 4 \<or> n100 = 4 then (y - 1, 12, 31)
         else (case month_day (month_lengths y) 1 r1 of (m, d) \<Rightarrow> (y, m, d)))"

text \<open>\<^verbatim>\<open>strftime("%Y-%m-%d")\<close>: four, two and two decimal digits.\<close>

definition digit :: "nat \<Rightarrow> char" where
  "digit k = char_of (48 + k mod 10)"

definition strftime_ymd :: "nat \<Rightarrow> string" where
  "strftime_ymd n =
     (case ord2ymd n of (y, m, d) \<Rightarrow>
        [digit (y div 1000), digit (y div 100), digit (y div 10), digit y] @ ''-'' @
        [digit (m div 10), digit m] @ ''-'' @ [digit (d div 10), digit d])"

text \<open>
  \<^verbatim>\<open>strptime(s, "%Y-%m-%d")\<close>. The year is four digits, the month matches
  \<^verbatim>\<open>1[0-2]|0[1-9]|[1-9]\<close>, the day \<^verbatim>\<open>3[0-1]|[1-2]\d|0[1-9]|[1-9]| [1-9]\<close>, nothing
  may follow, and the three numbers must be a date; everything else is a ValueError.
\<close>

definition is_digit :: "char \<Rightarrow> bool" where
  "is_digit c = (let n = (of_char c :: nat) in 48 \<le> n \<and> n \<le> 57)"

definition digit_val :: "char \<Rightarrow> nat" where
  "digit_val c = of_char c - 48"

definition in_range :: "char \<Rightarrow> nat \<Rightarrow> nat \<Rightarrow> bool" where
  "in_range c lo hi = (is_digit c \<and> lo \<le> digit_val c \<and> digit_val c \<le> hi)"

fun parse_month :: "string \<Rightarrow> (nat \<times> string) option" where
  "parse_month (a # b # s) =
     (if a = CHR ''1'' \<and> in_range b 0 2 then Some (10 + digit_val b, s)
      else if a = CHR ''0'' \<and> in_range b 1 9 then Some (digit_val b, s)
      else if in_range a 1 9 then Some (digit_val a, b # s)
      else None)"
| "parse_month [a] = (if in_range a 1 9 then Some (digit_val a, []) else None)"
| "parse_month [] = None"

fun parse_day :: "string \<Rightarrow> (nat \<times> string) option" where
  "parse_day (a # b # s) =
     (if a = CHR ''3'' \<and> in_range b 0 1 then Some (30 + digit_val b, s)
      else if in_range a 1 2 \<and> is_digit b then Some (10 * digit_val a + digit_val b, s)
      else if a = CHR ''0'' \<and> in_range b 1 9 then Some (digit_val b, s)
      else if in_range a 1 9 then Some (digit_val a, b # s)
      else if a = CHR '' '' \<and> in_range b 1 9 then Some (digit_val b, s)
      else None)"
| "parse_day [a] = (if in_range a 1 9 then Some (digit_val a, []) else None)"
| "parse_day [] = None"

definition valid_date :: "nat \<Rightarrow> nat \<Rightarrow> nat \<Rightarrow> bool" where
  "valid_date y m d =
     (1 \<le> y \<and> y \<le> 9999 \<and> 1 \<le> m \<and> m \<le> 12 \<and> 1 \<le> d \<and> d \<le> month_lengths y ! (m - 1))"

definition strptime_ymd :: "string \<Rightarrow> error + nat" where
  "strptime_ymd s =
     (case s of
        y1 # y2 # y3 # y4 # dash # s1 \<Rightarrow>
          if is_digit y1 \<and> is_digit y2 \<and> is_digit y3 \<and> is_digit y4 \<and> dash = CHR ''-'' then
            (case parse_month s1 of
               Some (m, dash' # s2) \<Rightarrow>
                 if dash' = CHR ''-'' then
                   (case parse_day s2 of
                      Some (d, []) \<Rightarrow>
                        (let y = 1000 * digit_val y1 + 100 * digit_val y2
                                 + 10 * digit_val y3 + digit_val y4
                         in if valid_date y m d then Inr (ymd2ord y m d) else Inl ValueError)
                    | _ \<Rightarrow> Inl ValueError)
                 else Inl ValueError
             | _ \<Rightarrow> Inl ValueError)
          else Inl ValueError
      | _ \<Rightarrow> Inl ValueError)"

section \<open>The data model\<close>

text \<open>
  The classes \<^verbatim>\<open>Book\<close> and \<^verbatim>\<open>Member\<close> with the attribute types of the data model:
  identifiers and free text are strings, \<^verbatim>\<open>None\<close> is \<open>None\<close>, a due date is the
  string \<^verbatim>\<open>strftime\<close> wrote.
\<close>

record book =
  book_id :: string
  title :: string
  author :: string
  is_available :: bool
  borrower :: "string option"
  due_date :: "string option"

record member =
  member_id :: string
  name :: string
  email :: string
  borrowed_books :: "string list"

text \<open>\<^verbatim>\<open>Book(book_id, title, author)\<close> and \<^verbatim>\<open>Member(member_id, name, email)\<close>.\<close>

definition Book :: "string \<Rightarrow> string \<Rightarrow> string \<Rightarrow> book" where
  "Book bid t a =
     \<lparr>book_id = bid, title = t, author = a, is_available = True,
      borrower = None, due_date = None\<rparr>"

definition Member :: "string \<Rightarrow> string \<Rightarrow> string \<Rightarrow> member" where
  "Member mid n e = \<lparr>member_id = mid, name = n, email = e, borrowed_books = []\<rparr>"

text \<open>
  The \<^verbatim>\<open>Library\<close> object: its two dicts. Its third attribute, \<^verbatim>\<open>fine_rate\<close>, is
  set to 1.0 by the constructor, assigned nowhere else and not persisted: a constant.
  Amounts of money are reals; with this rate every product the code forms is a whole
  number of days, which a float holds exactly.
\<close>

record library =
  books :: "(string \<times> book) list"
  members :: "(string \<times> member) list"

definition fine_rate :: real where
  "fine_rate = 1"

text \<open>
  The backing file \<^verbatim>\<open>library_data.json\<close>: absent, present with a text that is not
  JSON, or present with a JSON text, given by the value \<^verbatim>\<open>json.load\<close> reads from it
  and \<^verbatim>\<open>json.dump\<close> writes to it. \<open>writes\<close> counts the times the file was written.
\<close>

datatype backing_file = Missing | Unparseable | Parsed json

record disk =
  content :: backing_file
  writes :: nat

section \<open>Persistence\<close>

definition json_of_opt :: "string option \<Rightarrow> json" where
  "json_of_opt v = (case v of None \<Rightarrow> JNull | Some s \<Rightarrow> JStr s)"

text \<open>\<^verbatim>\<open>book.__dict__\<close> and \<^verbatim>\<open>member.__dict__\<close>: every attribute, in the order set.\<close>

definition json_of_book :: "book \<Rightarrow> json" where
  "json_of_book b =
     JObj [(''book_id'', JStr (book_id b)), (''title'', JStr (title b)),
           (''author'', JStr (author b)), (''is_available'', JBool (is_available b)),
           (''borrower'', json_of_opt (borrower b)), (''due_date'', json_of_opt (due_date b))]"

definition json_of_member :: "member \<Rightarrow> json" where
  "json_of_member m =
     JObj [(''member_id'', JStr (member_id m)), (''name'', JStr (name m)),
           (''email'', JStr (email m)), (''borrowed_books'', JArr (map JStr (borrowed_books m)))]"

definition dump :: "library \<Rightarrow> json" where
  "dump L =
     JObj [(''books'', JObj (map (\<lambda>(k, b). (k, json_of_book b)) (books L))),
           (''members'', JObj (map (\<lambda>(k, m). (k, json_of_member m)) (members L)))]"

definition save_data :: "library \<Rightarrow> disk \<Rightarrow> disk" where
  "save_data L D = \<lparr>content = Parsed (dump L), writes = writes D + 1\<rparr>"

text \<open>Reading attribute values back at the types of the records.\<close>

definition as_str :: "json \<Rightarrow> string option" where
  "as_str j = (case j of JStr s \<Rightarrow> Some s | _ \<Rightarrow> None)"

definition as_bool :: "json \<Rightarrow> bool option" where
  "as_bool j = (case j of JBool b \<Rightarrow> Some b | _ \<Rightarrow> None)"

definition as_opt_str :: "json \<Rightarrow> string option option" where
  "as_opt_str j = (case j of JNull \<Rightarrow> Some None | JStr s \<Rightarrow> Some (Some s) | _ \<Rightarrow> None)"

fun as_str_list :: "json list \<Rightarrow> string list option" where
  "as_str_list [] = Some []"
| "as_str_list (j # js) =
     (case as_str j of None \<Rightarrow> None
      | Some s \<Rightarrow> (case as_str_list js of None \<Rightarrow> None | Some ss \<Rightarrow> Some (s # ss)))"

text \<open>Python's truth value of a JSON value.\<close>

definition truthy :: "json \<Rightarrow> bool" where
  "truthy j =
     (case j of JNull \<Rightarrow> False | JBool b \<Rightarrow> b | JNum q \<Rightarrow> q \<noteq> 0 | JStr s \<Rightarrow> s \<noteq> []
      | JArr xs \<Rightarrow> xs \<noteq> [] | JObj kv \<Rightarrow> kv \<noteq> [])"

definition kw_default :: "(string \<times> json) list \<Rightarrow> string \<Rightarrow> json \<Rightarrow> json" where
  "kw_default kw k dflt = (case dict_get kw k of None \<Rightarrow> dflt | Some v \<Rightarrow> v)"

text \<open>
  \<^verbatim>\<open>Book(**j)\<close>: a TypeError when \<open>j\<close> is no dict, has a key that is no parameter of
  the constructor, or lacks one of the three parameters without a default.
\<close>

definition Book_kwargs :: "json \<Rightarrow> error + book" where
  "Book_kwargs j =
     (case j of
        JObj kw \<Rightarrow>
          if \<not> list_all (\<lambda>k. k \<in> set [''book_id'', ''title'', ''author'', ''is_available'',
                                      ''borrower'', ''due_date'']) (dict_keys kw)
          then Inl TypeError
          else if \<not> list_all (\<lambda>k. k \<in> set (dict_keys kw)) [''book_id'', ''title'', ''author'']
          then Inl TypeError
          else
            (case (as_str (kw_default kw ''book_id'' JNull),
                   as_str (kw_default kw ''title'' JNull),
                   as_str (kw_default kw ''author'' JNull),
                   as_bool (kw_default kw ''is_available'' (JBool True)),
                   as_opt_str (kw_default kw ''borrower'' JNull),
                   as_opt_str (kw_default kw ''due_date'' JNull)) of
               (Some i, Some t, Some a, Some av, Some bo, Some du) \<Rightarrow>
                 Inr \<lparr>book_id = i, title = t, author = a, is_available = av,
                      borrower = bo, due_date = du\<rparr>
             | _ \<Rightarrow> Inl Untyped)
      | _ \<Rightarrow> Inl TypeError)"

text \<open>
  \<^verbatim>\<open>Member(**j)\<close>; the constructor replaces a false \<^verbatim>\<open>borrowed_books\<close> by a new
  empty list.
\<close>

definition Member_kwargs :: "json \<Rightarrow> error + member" where
  "Member_kwargs j =
     (case j of
        JObj kw \<Rightarrow>
          if \<not> list_all (\<lambda>k. k \<in> set [''member_id'', ''name'', ''email'', ''borrowed_books''])
                   (dict_keys kw)
          then Inl TypeError
          else if \<not> list_all (\<lambda>k. k \<in> set (dict_keys kw)) [''member_id'', ''name'', ''email'']
          then Inl TypeError
          else
            (let bb = kw_default kw ''borrowed_books'' JNull in
             case (as_str (kw_default kw ''member_id'' JNull),
                   as_str (kw_default kw ''name'' JNull),
                   as_str (kw_default kw ''email'' JNull),
                   if truthy bb then (case bb of JArr xs \<Rightarrow> as_str_list xs | _ \<Rightarrow> None)
                   else Some []) of
               (Some i, Some n, Some e, Some l) \<Rightarrow>
                 Inr \<lparr>member_id = i, name = n, email = e, borrowed_books = l\<rparr>
             | _ \<Rightarrow> Inl Untyped)
      | _ \<Rightarrow> Inl TypeError)"

text \<open>\<^verbatim>\<open>j[k]\<close> for a string \<open>k\<close>: only a dict can be subscripted by a string.\<close>

definition subscript :: "json \<Rightarrow> string \<Rightarrow> error + json" where
  "subscript j k =
     (case j of
        JObj kw \<Rightarrow> (case dict_get kw k of None \<Rightarrow> Inl KeyError | Some v \<Rightarrow> Inr v)
      | _ \<Rightarrow> Inl TypeError)"

text \<open>
  The two dict comprehensions of \<^verbatim>\<open>load_data\<close>, for a constructor \<open>ctor\<close>:
  \<^verbatim>\<open>{e[idk]: ctor(**e) for e in section}\<close> over a list and
  \<^verbatim>\<open>{k: ctor(**e) for k, e in section.items()}\<close> over a dict. The key is
  evaluated before the value; the first exception ends the comprehension.
\<close>

fun from_list ::
  "(json \<Rightarrow> error + 'a) \<Rightarrow> string \<Rightarrow> json list \<Rightarrow> (string \<times> 'a) list
     \<Rightarrow> error + (string \<times> 'a) list" where
  "from_list ctor idk [] acc = Inr acc"
| "from_list ctor idk (e # es) acc =
     (case subscript e idk of
        Inl err \<Rightarrow> Inl err
      | Inr kj \<Rightarrow>
          (case ctor e of
             Inl err \<Rightarrow> Inl err
           | Inr v \<Rightarrow>
               (case as_str kj of
                  None \<Rightarrow> Inl Untyped
                | Some k \<Rightarrow> from_list ctor idk es (dict_set k v acc))))"

fun from_items ::
  "(json \<Rightarrow> error + 'a) \<Rightarrow> (string \<times> json) list \<Rightarrow> (string \<times> 'a) list
     \<Rightarrow> error + (string \<times> 'a) list" where
  "from_items ctor [] acc = Inr acc"
| "from_items ctor ((k, e) # kes) acc =
     (case ctor e of
        Inl err \<Rightarrow> Inl err
      | Inr v \<Rightarrow> from_items ctor kes (dict_set k v acc))"

text \<open>
  One section of the file: a list takes the first comprehension, anything else the
  second, where \<^verbatim>\<open>.items()\<close> is an AttributeError on what is not a dict.
\<close>

definition decode_section ::
  "(json \<Rightarrow> error + 'a) \<Rightarrow> string \<Rightarrow> json \<Rightarrow> error + (string \<times> 'a) list" where
  "decode_section ctor idk sec =
     (case sec of
        JArr es \<Rightarrow> from_list ctor idk es []
      | JObj kes \<Rightarrow> from_items ctor kes []
      | _ \<Rightarrow> Inl AttributeError)"

text \<open>
  \<^verbatim>\<open>load_data\<close> on the object \<open>L\<close>. Only FileNotFoundError is caught (the message
  printed then is not modelled). \<^verbatim>\<open>self.books\<close> is assigned before the members are
  decoded, so an exception there leaves the new books in the object.
\<close>

definition load_data :: "backing_file \<Rightarrow> library \<Rightarrow> (error + unit) \<times> library" where
  "load_data f L =
     (case f of
        Missing \<Rightarrow> (Inr (), L)
      | Unparseable \<Rightarrow> (Inl JSONDecodeError, L)
      | Parsed data \<Rightarrow>
          (case data of
             JObj kw \<Rightarrow>
               (case decode_section Book_kwargs ''book_id'' (kw_default kw ''books'' (JObj [])) of
                  Inl err \<Rightarrow> (Inl err, L)
                | Inr bs \<Rightarrow>
                    (let L1 = L\<lparr>books := bs\<rparr> in
                     case decode_section Member_kwargs ''member_id''
                            (kw_default kw ''members'' (JObj [])) of
                       Inl err \<Rightarrow> (Inl err, L1)
                     | Inr ms \<Rightarrow> (Inr (), L1\<lparr>members := ms\<rparr>)))
           | _ \<Rightarrow> (Inl AttributeError, L)))"

text \<open>
  \<^verbatim>\<open>Library()\<close>: two empty dicts, then \<^verbatim>\<open>load_data\<close>. An exception leaves the
  caller without a library.
\<close>

definition Library_init :: "backing_file \<Rightarrow> error + library" where
  "Library_init f =
     (case load_data f \<lparr>books = [], members = []\<rparr> of
        (Inl err, _) \<Rightarrow> Inl err
      | (Inr _, L) \<Rightarrow> Inr L)"

section \<open>The operations of the store\<close>

text \<open>
  A method takes the library object and the disk and returns its result with both as
  it leaves them. A result \<open>Inl e\<close> is the exception \<open>e\<close> escaping the method; the
  state returned with it is what the method had assigned by then. The clock reading
  \<^verbatim>\<open>datetime.now()\<close> is the argument \<open>now\<close>. \<^verbatim>\<open>k in d\<close> is \<open>dict_get d k \<noteq> None\<close>.
\<close>

definition add_book ::
  "string \<Rightarrow> string \<Rightarrow> string \<Rightarrow> library \<times> disk \<Rightarrow> bool \<times> library \<times> disk" where
  "add_book bid t a w =
     (case w of (L, D) \<Rightarrow>
        if dict_get (books L) bid = None then
          (let L' = L\<lparr>books := dict_set bid (Book bid t a) (books L)\<rparr>
           in (True, L', save_data L' D))
        else (False, L, D))"

definition add_member ::
  "string \<Rightarrow> string \<Rightarrow> string \<Rightarrow> library \<times> disk \<Rightarrow> bool \<times> library \<times> disk" where
  "add_member mid n e w =
     (case w of (L, D) \<Rightarrow>
        if dict_get (members L) mid = None then
          (let L' = L\<lparr>members := dict_set mid (Member mid n e) (members L)\<rparr>
           in (True, L', save_data L' D))
        else (False, L, D))"

text \<open>
  \<^verbatim>\<open>borrow_book\<close> assigns \<^verbatim>\<open>is_available\<close> and \<^verbatim>\<open>borrower\<close> before it computes the
  due date, the one step that can raise.
\<close>

definition borrow_book ::
  "nat \<Rightarrow> string \<Rightarrow> string \<Rightarrow> library \<times> disk \<Rightarrow> (error + bool) \<times> library \<times> disk" where
  "borrow_book now bid mid w =
     (case w of (L, D) \<Rightarrow>
        (case (dict_get (books L) bid, dict_get (members L) mid) of
           (Some b, Some m) \<Rightarrow>
             if is_available b then
               (let b1 = b\<lparr>is_available := False, borrower := Some mid\<rparr>;
                    L1 = L\<lparr>books := dict_set bid b1 (books L)\<rparr>
                in case add_days now 14 of
                     Inl err \<Rightarrow> (Inl err, L1, D)
                   | Inr due \<Rightarrow>
                       (let b2 = b1\<lparr>due_date := Some (strftime_ymd (toordinal due))\<rparr>;
                            m' = m\<lparr>borrowed_books := borrowed_books m @ [bid]\<rparr>;
                            L2 = L\<lparr>books := dict_set bid b2 (books L),
                                   members := dict_set mid m' (members L)\<rparr>
                        in (Inr True, L2, save_data L2 D)))
             else (Inr False, L, D)
         | _ \<Rightarrow> (Inr False, L, D)))"

text \<open>The truth value of \<^verbatim>\<open>book.due_date\<close>: \<^verbatim>\<open>None\<close> and the empty string are false.\<close>

definition opt_truthy :: "string option \<Rightarrow> bool" where
  "opt_truthy v = (case v of None \<Rightarrow> False | Some s \<Rightarrow> s \<noteq> [])"

definition calculate_fine :: "nat \<Rightarrow> library \<Rightarrow> string \<Rightarrow> error + real" where
  "calculate_fine now L bid =
     (case dict_get (books L) bid of
        None \<Rightarrow> Inr 0
      | Some b \<Rightarrow>
          if \<not> is_available b \<and> opt_truthy (due_date b) then
            (case due_date b of
               None \<Rightarrow> Inr 0
             | Some s \<Rightarrow>
                 (case strptime_ymd s of
                    Inl err \<Rightarrow> Inl err
                  | Inr due \<Rightarrow>
                      (let days_overdue = timedelta_days now (midnight due)
                       in if days_overdue > 0 then Inr (real_of_int days_overdue * fine_rate)
                          else Inr 0)))
          else Inr 0)"

text \<open>
  \<^verbatim>\<open>return_book\<close>: the fine, the lookup of the borrower (a KeyError for an absent
  one, \<^verbatim>\<open>None\<close> included) and \<^verbatim>\<open>list.remove\<close> (a ValueError for an absent element,
  else the first occurrence goes) all come before the first assignment.
\<close>

definition return_book ::
  "nat \<Rightarrow> string \<Rightarrow> library \<times> disk \<Rightarrow> (error + bool \<times> real) \<times> library \<times> disk" where
  "return_book now bid w =
     (case w of (L, D) \<Rightarrow>
        (case dict_get (books L) bid of
           None \<Rightarrow> (Inr (False, 0), L, D)
         | Some b \<Rightarrow>
             if \<not> is_available b then
               (case calculate_fine now L bid of
                  Inl err \<Rightarrow> (Inl err, L, D)
                | Inr fine \<Rightarrow>
                    (case borrower b of
                       None \<Rightarrow> (Inl KeyError, L, D)
                     | Some mid \<Rightarrow>
                         (case dict_get (members L) mid of
                            None \<Rightarrow> (Inl KeyError, L, D)
                          | Some m \<Rightarrow>
                              if bid \<notin> set (borrowed_books m) then (Inl ValueError, L, D)
                              else
                                (let m' = m\<lparr>borrowed_books := remove1 bid (borrowed_books m)\<rparr>;
                                     b' = b\<lparr>is_available := True, borrower := None,
                                            due_date := None\<rparr>;
                                     L' = L\<lparr>books := dict_set bid b' (books L),
                                            members := dict_set mid m' (members L)\<rparr>
                                 in (Inr (True, fine), L', save_data L' D)))))
             else (Inr (False, 0), L, D)))"

text \<open>\<^verbatim>\<open>search_books\<close>: the loop over \<^verbatim>\<open>self.books.values()\<close>, appending to \<open>results\<close>.\<close>

fun search_loop :: "string \<Rightarrow> book list \<Rightarrow> book list \<Rightarrow> book list" where
  "search_loop q [] results = results"
| "search_loop q (b # bs) results =
     search_loop q bs
       (if str_in q (lower (title b)) \<or> str_in q (lower (author b)) then results @ [b]
        else results)"

definition search_books :: "string \<Rightarrow> library \<Rightarrow> book list" where
  "search_books query L = search_loop (lower query) (dict_values (books L)) []"

section \<open>Invariants\<close>

text \<open>
  The cross-entity invariant in the words of the specification: an unavailable book
  names an existing member who lists the book's id exactly once; an available book
  is in no member's list; borrower and due date are unset exactly for the available
  books.
\<close>

definition cross_entity_invariant :: "library \<Rightarrow> bool" where
  "cross_entity_invariant L =
     (\<forall>b \<in> set (dict_values (books L)).
        (\<not> is_available b \<longrightarrow>
           (case borrower b of
              None \<Rightarrow> False
            | Some mid \<Rightarrow>
                (case dict_get (members L) mid of
                   None \<Rightarrow> False
                 | Some m \<Rightarrow> count_list (borrowed_books m) (book_id b) = 1)))
        \<and> (is_available b \<longrightarrow>
             (\<forall>m \<in> set (dict_values (members L)). book_id b \<notin> set (borrowed_books m)))
        \<and> (is_available b \<longleftrightarrow> borrower b = None)
        \<and> (is_available b \<longleftrightarrow> due_date b = None))"

text \<open>
  What the operations maintain in addition: both dicts have unique keys, a book is
  stored under its own id, and a member lists only books that are out with that
  member.
\<close>

definition held_by :: "library \<Rightarrow> string \<Rightarrow> string \<Rightarrow> bool" where
  "held_by L mid bid =
     (case dict_get (books L) bid of
        None \<Rightarrow> False
      | Some b \<Rightarrow> \<not> is_available b \<and> borrower b = Some mid)"

definition store_invariant :: "library \<Rightarrow> bool" where
  "store_invariant L =
     (dict_ok (books L) \<and> dict_ok (members L)
      \<and> (\<forall>(k, b) \<in> set (books L). book_id b = k)
      \<and> (\<forall>(mid, m) \<in> set (members L). \<forall>bid \<in> set (borrowed_books m). held_by L mid bid)
      \<and> cross_entity_invariant L)"

section \<open>Example stores\<close>

definition empty_library :: library where
  "empty_library = \<lparr>books = [], members = []\<rparr>"

definition empty_disk :: disk where
  "empty_disk = \<lparr>content = Missing, writes = 0\<rparr>"

text \<open>Noon of 2024-01-01, and noon sixteen days later.\<close>

definition noon_jan_1 :: nat where
  "noon_jan_1 = 738885 * 86400000000 + 43200000000"

definition noon_jan_17 :: nat where
  "noon_jan_17 = 738901 * 86400000000 + 43200000000"

text \<open>The store of the example script after \<^verbatim>\<open>borrow_book("B1", "M1")\<close> on 2024-01-01.\<close>

definition demo_library :: library where
  "demo_library =
     \<lparr>books =
        [(''B1'', \<lparr>book_id = ''B1'', title = ''Python Programming'', author = ''John Smith'',
                  is_available = False, borrower = Some ''M1'',
                  due_date = Some ''2024-01-15''\<rparr>),
         (''B2'', Book ''B2'' ''Data Structures'' ''Jane Doe'')],
      members =
        [(''M1'', \<lparr>member_id = ''M1'', name = ''Alice Brown'', email = ''alice@email.com'',
                  borrowed_books = [''B1'']\<rparr>)]\<rparr>"

text \<open>The same store before the loan.\<close>

definition shelf_library :: library where
  "shelf_library =
     \<lparr>books =
        [(''B1'', Book ''B1'' ''Python Programming'' ''John Smith''),
         (''B2'', Book ''B2'' ''Data Structures'' ''Jane Doe'')],
      members = [(''M1'', Member ''M1'' ''Alice Brown'' ''alice@email.com'')]\<rparr>"

text \<open>A store in which a second member also lists the book that the first one holds.\<close>

definition twice_listed_library :: library where
  "twice_listed_library =
     \<lparr>books =
        [(''B1'', \<lparr>book_id = ''B1'', title = ''Python Programming'', author = ''John Smith'',
                  is_available = False, borrower = Some ''M1'',
                  due_date = Some ''2024-01-15''\<rparr>)],
      members =
        [(''M1'', \<lparr>member_id = ''M1'', name = ''Alice Brown'', email = ''alice@email.com'',
                  borrowed_books = [''B1'']\<rparr>),
         (''M2'', \<lparr>member_id = ''M2'', name = ''Bob Green'', email = ''bob@email.com'',
                  borrowed_books = [''B1'']\<rparr>)]\<rparr>"

text \<open>A backing file whose only book is out with a member the file does not have.\<close>

definition dangling_file :: backing_file where
  "dangling_file =
     Parsed (JObj
       [(''books'', JObj
          [(''B1'', JObj [(''book_id'', JStr ''B1''), (''title'', JStr ''Python Programming''),
                          (''author'', JStr ''John Smith''), (''is_available'', JBool False),
                          (''borrower'', JStr ''M9''), (''due_date'', JStr ''2024-01-15'')])]),
        (''members'', JObj [])])"

definition dangling_library :: library where
  "dangling_library =
     \<lparr>books =
        [(''B1'', \<lparr>book_id = ''B1'', title = ''Python Programming'', author = ''John Smith'',
                  is_available = False, borrower = Some ''M9'',
                  due_date = Some ''2024-01-15''\<rparr>)],
      members = []\<rparr>"

section \<open>Facts about dictionaries\<close>

lemma dict_get_set: "dict_get (dict_set k v d) k' = (if k' = k then Some v else dict_get d k')"
  by (induction d) (auto simp: dict_get_def)

lemma dict_get_None_keys: "dict_get d k = None \<longleftrightarrow> k \<notin> set (dict_keys d)"
  by (simp add: dict_get_def dict_keys_def map_of_eq_None_iff)

lemma dict_set_fresh: "dict_get d k = None \<Longrightarrow> dict_set k v d = d @ [(k, v)]"
  by (induction d) (auto simp: dict_get_def split: if_splits)

lemma dict_keys_set_present: "dict_get d k \<noteq> None \<Longrightarrow> dict_keys (dict_set k v d) = dict_keys d"
  by (induction d) (auto simp: dict_get_def dict_keys_def)

lemma dict_ok_set: "dict_ok d \<Longrightarrow> dict_ok (dict_set k v d)"
proof (cases "dict_get d k")
  case None
  then show "dict_ok d \<Longrightarrow> dict_ok (dict_set k v d)"
    by (simp add: dict_set_fresh dict_ok_def dict_keys_def dict_get_def map_of_eq_None_iff)
next
  case (Some a)
  then show "dict_ok d \<Longrightarrow> dict_ok (dict_set k v d)"
    by (simp add: dict_ok_def dict_keys_set_present)
qed

lemma dict_ok_mem_get: "dict_ok d \<Longrightarrow> (k, v) \<in> set d \<longleftrightarrow> dict_get d k = Some v"
  by (auto simp: dict_ok_def dict_keys_def dict_get_def dest: map_of_SomeD)

lemma mem_dict_set:
  "dict_ok d \<Longrightarrow> (k', v') \<in> set (dict_set k v d) \<longleftrightarrow> (if k' = k then v' = v else (k', v') \<in> set d)"
  by (auto simp: dict_ok_mem_get dict_ok_set dict_get_set)

section \<open>Failed preconditions\<close>

text \<open>
  Claim C4. \<^verbatim>\<open>borrow_book\<close> with an unknown book id, an unknown member id or a book
  that is not available, and \<^verbatim>\<open>return_book\<close> with an unknown book id or a book that
  is available, return failure (\<^verbatim>\<open>return_book\<close> with the fine 0.0) and leave the
  library object and the disk, its write count included, exactly as they were.
\<close>

theorem failed_borrow_return_no_effect:
  "((dict_get (books L) bid = None \<or> dict_get (members L) mid = None
       \<or> (\<exists>b. dict_get (books L) bid = Some b \<and> \<not> is_available b))
      \<longrightarrow> borrow_book now bid mid (L, D) = (Inr False, L, D))
   \<and> ((dict_get (books L) bid = None
        \<or> (\<exists>b. dict_get (books L) bid = Some b \<and> is_available b))
      \<longrightarrow> return_book now bid (L, D) = (Inr (False, 0), L, D))"
  by (auto simp: borrow_book_def return_book_def split: option.splits)

theorem failed_borrow_return_no_effect_witness:
  "borrow_book noon_jan_1 ''B9'' ''M1'' (demo_library, empty_disk) = (Inr False, demo_library, empty_disk)
   \<and> return_book noon_jan_1 ''B2'' (demo_library, empty_disk) = (Inr (False, 0), demo_library, empty_disk)"
  using failed_borrow_return_no_effect [of demo_library "''B9''" "''M1''" noon_jan_1 empty_disk]
    failed_borrow_return_no_effect [of demo_library "''B2''" "''M1''" noon_jan_1 empty_disk]
  by (simp add: demo_library_def dict_get_def Book_def)

section \<open>Adding books and members\<close>

text \<open>
  Claim C6. \<^verbatim>\<open>add_book\<close> with an id that is present returns failure and leaves
  the library and the disk as they were. With a new id it appends one entry, a book
  that is available with no borrower and no due date, writes the whole new state to
  the file once, and returns success; the catalog then has exactly one entry for the
  id, and a second \<^verbatim>\<open>add_book\<close> with that id fails and changes nothing.
  \<^verbatim>\<open>add_member\<close> does the same with a member whose borrowed list is empty.
\<close>

theorem add_book_add_member_collision:
  "(dict_get (books L) bid \<noteq> None \<longrightarrow> add_book bid t a (L, D) = (False, L, D))
   \<and> (dict_get (books L) bid = None \<longrightarrow>
        (let L' = L\<lparr>books := books L @ [(bid, Book bid t a)]\<rparr> in
           add_book bid t a (L, D) = (True, L', \<lparr>content = Parsed (dump L'), writes = writes D + 1\<rparr>)
           \<and> filter (\<lambda>p. fst p = bid) (books L') = [(bid, Book bid t a)]
           \<and> add_book bid t' a' (snd (add_book bid t a (L, D))) = (False, snd (add_book bid t a (L, D))))
        \<and> Book bid t a = \<lparr>book_id = bid, title = t, author = a, is_available = True,
                            borrower = None, due_date = None\<rparr>)
   \<and> (dict_get (members L) mid \<noteq> None \<longrightarrow> add_member mid n e (L, D) = (False, L, D))
   \<and> (dict_get (members L) mid = None \<longrightarrow>
        (let L' = L\<lparr>members := members L @ [(mid, Member mid n e)]\<rparr> in
           add_member mid n e (L, D) = (True, L', \<lparr>content = Parsed (dump L'), writes = writes D + 1\<rparr>)
           \<and> filter (\<lambda>p. fst p = mid) (members L') = [(mid, Member mid n e)]
           \<and> add_member mid n' e' (snd (add_member mid n e (L, D))) = (False, snd (add_member mid n e (L, D))))
        \<and> Member mid n e = \<lparr>member_id = mid, name = n, email = e, borrowed_books = []\<rparr>)"
proof -
  have fresh: "filter (\<lambda>p. fst p = k) d = []" if "dict_get d k = None" for k :: string and d :: "(string \<times> 'v) list"
    using that by (auto simp: filter_empty_conv dict_get_None_keys dict_keys_def)
  have b1: "dict_get (books L) bid \<noteq> None \<longrightarrow> add_book bid t a (L, D) = (False, L, D)"
    by (simp add: add_book_def)
  have m1: "dict_get (members L) mid \<noteq> None \<longrightarrow> add_member mid n e (L, D) = (False, L, D)"
    by (simp add: add_member_def)
  have b2: "add_book bid t a (L, D) = (True, L\<lparr>books := books L @ [(bid, Book bid t a)]\<rparr>,
      \<lparr>content = Parsed (dump (L\<lparr>books := books L @ [(bid, Book bid t a)]\<rparr>)), writes = writes D + 1\<rparr>)"
    if "dict_get (books L) bid = None"
    using that by (simp add: add_book_def dict_set_fresh save_data_def Let_def)
  have b3: "add_book bid t' a' (snd (add_book bid t a (L, D))) = (False, snd (add_book bid t a (L, D)))"
    if "dict_get (books L) bid = None"
    unfolding b2 [OF that] using that by (simp add: add_book_def dict_get_def)
  have m2: "add_member mid n e (L, D) = (True, L\<lparr>members := members L @ [(mid, Member mid n e)]\<rparr>,
      \<lparr>content = Parsed (dump (L\<lparr>members := members L @ [(mid, Member mid n e)]\<rparr>)), writes = writes D + 1\<rparr>)"
    if "dict_get (members L) mid = None"
    using that by (simp add: add_member_def dict_set_fresh save_data_def Let_def)
  have m3: "add_member mid n' e' (snd (add_member mid n e (L, D))) = (False, snd (add_member mid n e (L, D)))"
    if "dict_get (members L) mid = None"
    unfolding m2 [OF that] using that by (simp add: add_member_def dict_get_def)
  show ?thesis
    using b1 b2 b3 m1 m2 m3 fresh [of "books L" bid] fresh [of "members L" mid]
    by (simp add: Let_def Book_def Member_def)
qed

theorem add_book_add_member_collision_witness:
  "add_book ''B1'' ''Other'' ''Nobody'' (shelf_library, empty_disk) = (False, shelf_library, empty_disk)
   \<and> fst (add_book ''B3'' ''Algorithms'' ''Ann Lee'' (shelf_library, empty_disk))
   \<and> add_member ''M1'' ''Other'' ''o@email.com'' (shelf_library, empty_disk) = (False, shelf_library, empty_disk)
   \<and> fst (add_member ''M2'' ''Bob Green'' ''bob@email.com'' (shelf_library, empty_disk))"
  using add_book_add_member_collision [of shelf_library "''B1''" "''Other''" "''Nobody''" empty_disk _ _ "''M1''" "''Other''" "''o@email.com''"]
    add_book_add_member_collision [of shelf_library "''B3''" "''Algorithms''" "''Ann Lee''" empty_disk _ _ "''M2''" "''Bob Green''" "''bob@email.com''"]
  by (simp add: shelf_library_def dict_get_def Let_def)

section \<open>Facts about dates\<close>

text \<open>
  The ordinal of a date is read back from the string \<^verbatim>\<open>strftime\<close> writes for it, for
  every date Python has.
\<close>

lemma month_day_sound:
  "k < sum_list ls \<Longrightarrow> month_day ls m0 k = (m, d) \<Longrightarrow>
     m0 \<le> m \<and> m < m0 + length ls \<and> 1 \<le> d \<and> d \<le> ls ! (m - m0)
     \<and> sum_list (take (m - m0) ls) + d = k + 1"
proof (induction ls arbitrary: m0 k)
  case Nil
  then show ?case by simp
next
  case (Cons l ls)
  show ?case
  proof (cases "k < l")
    case True
    with Cons.prems show ?thesis by auto
  next
    case False
    with Cons.prems have md: "month_day ls (m0 + 1) (k - l) = (m, d)" and lt: "k - l < sum_list ls"
      by auto
    from Cons.IH [OF lt md] have ih: "m0 + 1 \<le> m" "m < m0 + 1 + length ls" "1 \<le> d"
      "d \<le> ls ! (m - (m0 + 1))" "sum_list (take (m - (m0 + 1)) ls) + d = k - l + 1"
      by auto
    have step: "m - m0 = Suc (m - (m0 + 1))" using ih(1) by arith
    show ?thesis
      using ih False unfolding step by simp
  qed
qed

lemma days_before_year_digits:
  assumes "b \<le> 3" "c \<le> 24" "e \<le> 3"
  shows "days_before_year (a * 400 + b * 100 + c * 4 + e + 1)
           = a * 146097 + b * 36524 + c * 1461 + e * 365"
proof -
  let ?p = "a * 400 + b * 100 + c * 4 + e"
  have d4: "?p div 4 = a * 100 + b * 25 + c"
    by (rule div_nat_eqI) (use assms in simp_all)
  have d100: "?p div 100 = a * 4 + b"
    by (rule div_nat_eqI) (use assms in simp_all)
  have d400: "?p div 400 = a"
    by (rule div_nat_eqI) (use assms in simp_all)
  show ?thesis
    unfolding days_before_year_def Let_def
    using d4 d100 d400 by simp
qed

lemma sum_month_lengths: "sum_list (month_lengths y) = (if is_leap y then 366 else 365)"
  by (simp add: month_lengths_def)

lemma december_31:
  "ymd2ord y 12 31 = days_before_year y + (if is_leap y then 366 else 365)"
  by (simp add: ymd2ord_def days_before_month_def month_lengths_def)

lemma year_digits_bound:
  assumes "a \<le> 24" "b \<le> 3" "c \<le> 24" "e \<le> 3"
    and "a * 146097 + b * 36524 + c * 1461 + e * 365 \<le> (3652058::nat)"
  shows "a * 400 + b * 100 + c * 4 + e \<le> (9998::nat)"
proof (rule ccontr)
  assume "\<not> a * 400 + b * 100 + c * 4 + e \<le> 9998"
  then have big: "9999 \<le> a * 400 + b * 100 + c * 4 + e" by simp
  have "a = 24" using big assms(1-4) by linarith
  moreover have "b = 3" using big assms(1-4) by linarith
  moreover have "c = 24" using big assms(1-4) by linarith
  moreover have "e = 3" using big assms(1-4) by linarith
  ultimately show False using assms(5) by simp
qed

lemma leap_400: "is_leap (a * 400 + 400)"
proof -
  have "a * 400 + 400 = 400 * (a + 1)" by simp
  then have "400 dvd a * 400 + 400" by (metis dvd_triv_left)
  moreover from this have "4 dvd a * 400 + 400" by (rule dvd_trans [rotated]) simp
  ultimately show ?thesis by (simp add: is_leap_def mod_eq_0_iff_dvd)
qed

lemma leap_4:
  assumes "c \<le> 23"
  shows "is_leap (a * 400 + b * 100 + c * 4 + 4)"
proof -
  let ?p = "a * 400 + b * 100 + c * 4 + 4"
  have "?p = 4 * (a * 100 + b * 25 + c + 1)" by simp
  then have d4: "?p mod 4 = 0" by (metis mod_mult_self1_is_0)
  have "?p = (c * 4 + 4) + 100 * (a * 4 + b)" by simp
  then have "?p mod 100 = (c * 4 + 4) mod 100" by (metis mod_mult_self2)
  also have "\<dots> = c * 4 + 4" using assms by simp
  finally have "?p mod 100 \<noteq> 0" by simp
  with d4 show ?thesis by (simp add: is_leap_def)
qed

lemma ord2ymd_sound:
  assumes n1: "1 \<le> n" and n2: "n \<le> max_ordinal" and o: "ord2ymd n = (y, m, d)"
  shows "valid_date y m d \<and> ymd2ord y m d = n"
proof -
  define n0 where "n0 = n - 1"
  define a where "a = n0 div 146097"
  define r400 where "r400 = n0 mod 146097"
  define b where "b = r400 div 36524"
  define r100 where "r100 = r400 mod 36524"
  define c where "c = r100 div 1461"
  define r4 where "r4 = r100 mod 1461"
  define e where "e = r4 div 365"
  define r1 where "r1 = r4 mod 365"
  define p where "p = a * 400 + b * 100 + c * 4 + e"
  have e1: "n0 = a * 146097 + r400" and l1: "r400 < 146097"
    by (simp_all add: a_def r400_def)
  have e2: "r400 = b * 36524 + r100" and l2: "r100 < 36524"
    by (simp_all add: b_def r100_def)
  have e3: "r100 = c * 1461 + r4" and l3: "r4 < 1461"
    by (simp_all add: c_def r4_def)
  have e4: "r4 = e * 365 + r1" and l4: "r1 < 365"
    by (simp_all add: e_def r1_def)
  have n0: "n = n0 + 1" "n0 \<le> 3652058"
    using n1 n2 by (simp_all add: n0_def max_ordinal_def)
  have total: "n0 = a * 146097 + b * 36524 + c * 1461 + e * 365 + r1"
    by (simp only: e1 e2 e3 e4 add.assoc)
  have unfolded: "ord2ymd n =
      (if e = 4 \<or> b = 4 then (p + 1 - 1, 12, 31)
       else (case month_day (month_lengths (p + 1)) 1 r1 of (m, d) \<Rightarrow> (p + 1, m, d)))"
    unfolding ord2ymd_def Let_def p_def e_def r1_def r4_def c_def r100_def b_def r400_def
      a_def n0_def
    by (rule refl)
  have ba: "a \<le> 24" using total n0(2) by linarith
  have bb: "b \<le> 4" using e2 l1 by linarith
  have bc: "c \<le> 24" using e3 l2 by linarith
  have be: "e \<le> 4" using e4 l3 by linarith
  show ?thesis
  proof (cases "e = 4 \<or> b = 4")
    case False
    then have b3: "b \<le> 3" and e3': "e \<le> 3" using bb be by auto
    obtain m' d' where md': "month_day (month_lengths (p + 1)) 1 r1 = (m', d')"
      by (cases "month_day (month_lengths (p + 1)) 1 r1")
    have "ord2ymd n = (p + 1, m', d')"
      by (simp only: unfolded False if_False md' prod.case)
    with o have y: "y = p + 1" and "m' = m" "d' = d" by simp_all
    with md' have md: "month_day (month_lengths (p + 1)) 1 r1 = (m, d)" by simp
    have "r1 < sum_list (month_lengths (p + 1))"
      using l4 by (simp add: sum_month_lengths)
    from month_day_sound [OF this md]
    have m: "1 \<le> m" "m \<le> 12" "1 \<le> d" "d \<le> month_lengths (p + 1) ! (m - 1)"
      and s: "sum_list (take (m - 1) (month_lengths (p + 1))) + d = r1 + 1"
      by (simp_all add: month_lengths_def)
    have dby: "days_before_year (p + 1) = a * 146097 + b * 36524 + c * 1461 + e * 365"
      unfolding p_def by (rule days_before_year_digits [OF b3 bc e3'])
    have "a * 146097 + b * 36524 + c * 1461 + e * 365 \<le> 3652058"
      using total n0(2) by linarith
    from year_digits_bound [OF ba b3 bc e3' this]
    have yb: "p + 1 \<le> 9999" by (simp add: p_def)
    have "ymd2ord y m d = days_before_year (p + 1) + (sum_list (take (m - 1) (month_lengths (p + 1))) + d)"
      by (simp add: ymd2ord_def days_before_month_def y)
    also have "\<dots> = n" by (simp only: dby s total n0(1))
    finally have "ymd2ord y m d = n" .
    moreover have "valid_date y m d"
      unfolding valid_date_def y using m yb by simp
    ultimately show ?thesis by simp
  next
    case True
    have "ord2ymd n = (p + 1 - 1, 12, 31)"
      by (simp only: unfolded True if_True)
    with o have y: "y = p" and md: "m = 12" "d = 31" by simp_all
    show ?thesis
    proof (cases "b = 4")
      case True
      have z: "r100 = 0" using True e2 l1 by linarith
      then have z2: "c = 0" "e = 0" "r1 = 0"
        by (simp_all add: c_def e_def r1_def r4_def)
      have pv: "p = a * 400 + 400"
        by (simp add: p_def True z2)
      have nv: "n0 = a * 146097 + 146096"
        by (simp add: total True z2)
      have a23: "a \<le> 23" using nv n0(2) by linarith
      have leap: "is_leap p"
        unfolding pv by (rule leap_400)
      have "days_before_year (a * 400 + 3 * 100 + 24 * 4 + 3 + 1)
              = a * 146097 + 3 * 36524 + 24 * 1461 + 3 * 365"
        by (rule days_before_year_digits) simp_all
      then have dby: "days_before_year p = a * 146097 + 145731"
        by (simp add: pv add.commute)
      have "ymd2ord y m d = n"
        unfolding y md december_31 dby using leap nv n0(1) by simp
      moreover have "valid_date y m d"
        unfolding valid_date_def y md using a23 leap by (simp add: pv month_lengths_def)
      ultimately show ?thesis by simp
    next
      case False
      with True have e4': "e = 4" and b3: "b \<le> 3" using bb by auto
      have z: "r1 = 0" using e4' e4 l3 by linarith
      have c23: "c \<le> 23" using e3 e4 e4' l2 by linarith
      have pv: "p = a * 400 + b * 100 + c * 4 + 4"
        by (simp add: p_def e4')
      have nv: "n0 = a * 146097 + b * 36524 + c * 1461 + 1460"
        by (simp add: total e4' z)
      have leap: "is_leap p"
        unfolding pv by (rule leap_4 [OF c23])
      have "days_before_year (a * 400 + b * 100 + c * 4 + 3 + 1)
              = a * 146097 + b * 36524 + c * 1461 + 3 * 365"
        by (rule days_before_year_digits) (use b3 c23 in simp_all)
      then have dby: "days_before_year p = a * 146097 + b * 36524 + c * 1461 + 1095"
        by (simp add: pv add.commute add.left_commute)
      have "ymd2ord y m d = n"
        unfolding y md december_31 dby using leap nv n0(1) by simp
      moreover have "valid_date y m d"
        unfolding valid_date_def y md using ba b3 c23 leap by (simp add: pv month_lengths_def)
      ultimately show ?thesis by simp
    qed
  qed
qed

lemma of_char_digit: "(of_char (digit k) :: nat) = 48 + k mod 10"
  by (simp add: digit_def)

lemma is_digit_digit: "is_digit (digit k)"
  by (simp add: is_digit_def of_char_digit)

lemma digit_val_digit: "digit_val (digit k) = k mod 10"
  by (simp add: digit_val_def of_char_digit)

lemma digit_eq_char: "digit k = c \<longleftrightarrow> 48 + k mod 10 = (of_char c :: nat)"
proof -
  have "digit k = c \<longleftrightarrow> (of_char (digit k) :: nat) = of_char c"
    by (simp only: of_char_eq_iff)
  then show ?thesis by (simp only: of_char_digit)
qed

lemma in_range_digit: "in_range (digit k) lo hi \<longleftrightarrow> lo \<le> k mod 10 \<and> k mod 10 \<le> hi"
  by (simp add: in_range_def is_digit_digit digit_val_digit)

lemma four_digits:
  assumes "y \<le> 9999"
  shows "1000 * (y div 1000 mod 10) + 100 * (y div 100 mod 10) + 10 * (y div 10 mod 10) + y mod 10 = (y::nat)"
proof -
  have a: "y div 1000 mod 10 = y div 1000" using assms by simp
  have "y div 100 div 10 = y div 1000" by (simp add: div_mult2_eq [symmetric])
  then have b: "y div 100 = 10 * (y div 1000) + y div 100 mod 10"
    by (metis mult_div_mod_eq)
  have "y div 10 div 10 = y div 100" by (simp add: div_mult2_eq [symmetric])
  then have c: "y div 10 = 10 * (y div 100) + y div 10 mod 10"
    by (metis mult_div_mod_eq)
  have d: "y = 10 * (y div 10) + y mod 10" by simp
  show ?thesis using a b c d by linarith
qed

lemma parse_month_digits:
  assumes "1 \<le> m" "m \<le> 12"
  shows "parse_month (digit (m div 10) # digit m # s) = Some (m, s)"
proof (cases "m < 10")
  case True
  then have "m div 10 = 0" "m mod 10 = m" by simp_all
  with assms show ?thesis
    by (simp add: digit_eq_char in_range_digit digit_val_digit)
next
  case False
  with assms have "m div 10 = 1" "m mod 10 = m - 10" "m mod 10 \<le> 2" by simp_all arith+
  with False show ?thesis
    by (simp add: digit_eq_char in_range_digit digit_val_digit)
qed

lemma parse_day_digits:
  assumes "1 \<le> d" "d \<le> 31"
  shows "parse_day [digit (d div 10), digit d] = Some (d, [])"
proof -
  consider "d < 10" | "10 \<le> d" "d < 20" | "20 \<le> d" "d < 30" | "30 \<le> d" by linarith
  then show ?thesis
  proof cases
    case 1
    then have "d div 10 = 0" "d mod 10 = d" by simp_all
    with assms show ?thesis
      by (simp add: digit_eq_char in_range_digit digit_val_digit is_digit_digit)
  next
    case 2
    then have "d div 10 = 1" "d mod 10 = d - 10" by simp_all arith
    with 2 show ?thesis
      by (simp add: digit_eq_char in_range_digit digit_val_digit is_digit_digit)
  next
    case 3
    then have "d div 10 = 2" "d mod 10 = d - 20" by simp_all arith
    with 3 show ?thesis
      by (simp add: digit_eq_char in_range_digit digit_val_digit is_digit_digit)
  next
    case 4
    with assms have "d div 10 = 3" "d mod 10 = d - 30" "d mod 10 \<le> 1" by simp_all arith+
    with 4 show ?thesis
      by (simp add: digit_eq_char in_range_digit digit_val_digit is_digit_digit)
  qed
qed

lemma month_length_le_31:
  assumes "1 \<le> m" "m \<le> 12"
  shows "month_lengths y ! (m - 1) \<le> 31"
proof -
  have "m - 1 < length (month_lengths y)" using assms by (simp add: month_lengths_def)
  then have "month_lengths y ! (m - 1) \<in> set (month_lengths y)" by (rule nth_mem)
  then show ?thesis by (auto simp: month_lengths_def)
qed

lemma strptime_of_digits:
  assumes "valid_date y m d"
  shows "strptime_ymd
           ([digit (y div 1000), digit (y div 100), digit (y div 10), digit y] @ ''-'' @
            [digit (m div 10), digit m] @ ''-'' @ [digit (d div 10), digit d])
         = Inr (ymd2ord y m d)"
proof -
  from assms have y: "y \<le> 9999" and m: "1 \<le> m" "m \<le> 12" and d: "1 \<le> d"
    and dl: "d \<le> month_lengths y ! (m - 1)"
    by (simp_all add: valid_date_def)
  from dl month_length_le_31 [OF m] have d31: "d \<le> 31" by (rule order_trans)
  have pm: "parse_month (digit (m div 10) # digit m # CHR ''-'' # [digit (d div 10), digit d])
              = Some (m, CHR ''-'' # [digit (d div 10), digit d])"
    by (rule parse_month_digits [OF m])
  have pd: "parse_day [digit (d div 10), digit d] = Some (d, [])"
    by (rule parse_day_digits [OF d d31])
  show ?thesis
    using assms
    by (simp add: strptime_ymd_def is_digit_digit digit_val_digit pm pd four_digits [OF y]
        del: parse_month.simps parse_day.simps)
qed

lemma strptime_strftime:
  assumes "1 \<le> n" "n \<le> max_ordinal"
  shows "strptime_ymd (strftime_ymd n) = Inr n"
proof -
  obtain y m d where o: "ord2ymd n = (y, m, d)" by (cases "ord2ymd n")
  from ord2ymd_sound [OF assms o] have v: "valid_date y m d" and r: "ymd2ord y m d = n"
    by simp_all
  have "strftime_ymd n =
      [digit (y div 1000), digit (y div 100), digit (y div 10), digit y] @ ''-'' @
      [digit (m div 10), digit m] @ ''-'' @ [digit (d div 10), digit d]"
    by (simp only: strftime_ymd_def o prod.case)
  then show ?thesis
    by (simp only: strptime_of_digits [OF v] r)
qed

section \<open>The fine\<close>

lemma toordinal_add_days: "toordinal (t + n * us_per_day) = toordinal t + n"
  by (simp add: toordinal_def us_per_day_def)

lemma toordinal_bounds:
  assumes "t \<le> datetime_max"
  shows "1 \<le> toordinal t \<and> toordinal t \<le> max_ordinal"
proof -
  have "t < max_ordinal * us_per_day"
    using assms by (simp add: datetime_max_def max_ordinal_def us_per_day_def)
  then have "t div us_per_day < max_ordinal"
    by (simp add: less_mult_imp_div_less)
  then show ?thesis by (simp add: toordinal_def)
qed

lemma timedelta_days_mono: "t \<le> t' \<Longrightarrow> timedelta_days t due \<le> timedelta_days t' due"
  by (simp add: timedelta_days_def zdiv_mono1 us_per_day_def)

lemma calculate_fine_cases:
  "(\<forall>t. calculate_fine t L bid = Inr 0)
   \<or> (\<exists>e. \<forall>t. calculate_fine t L bid = Inl e)
   \<or> (\<exists>due. \<forall>t. calculate_fine t L bid =
         Inr (if 0 < timedelta_days t (midnight due)
              then real_of_int (timedelta_days t (midnight due)) * fine_rate else 0))"
proof (cases "dict_get (books L) bid")
  case None
  then show ?thesis by (simp add: calculate_fine_def)
next
  case (Some b)
  show ?thesis
  proof (cases "\<not> is_available b \<and> opt_truthy (due_date b)")
    case False
    with Some have "\<forall>t. calculate_fine t L bid = Inr 0"
      by (auto simp: calculate_fine_def)
    then show ?thesis by blast
  next
    case True
    then obtain s where s: "due_date b = Some s" by (auto simp: opt_truthy_def split: option.splits)
    show ?thesis
    proof (cases "strptime_ymd s")
      case (Inl e)
      with Some True s show ?thesis by (simp add: calculate_fine_def)
    next
      case (Inr due)
      with Some True s have "\<forall>t. calculate_fine t L bid =
         Inr (if 0 < timedelta_days t (midnight due)
              then real_of_int (timedelta_days t (midnight due)) * fine_rate else 0)"
        by (simp add: calculate_fine_def Let_def)
      then show ?thesis by blast
    qed
  qed
qed

text \<open>
  Claim C3. For a book that is out and whose due date is a date, \<^verbatim>\<open>calculate_fine\<close>
  returns the whole days between the due date and now, floored, times the fine rate
  when that number is positive, and 0 otherwise. Whatever it returns is never
  negative. It returns 0 for an unknown book, an available book and a book without
  due date. A later clock reading never gives a smaller fine.
\<close>

theorem calculate_fine_clamped:
  "(\<forall>b s due. dict_get (books L) bid = Some b \<and> \<not> is_available b \<and> due_date b = Some s
        \<and> s \<noteq> [] \<and> strptime_ymd s = Inr due \<longrightarrow>
      calculate_fine now L bid =
        Inr (if 0 < timedelta_days now (midnight due)
             then real_of_int (timedelta_days now (midnight due)) * fine_rate else 0))
   \<and> (\<forall>f. calculate_fine now L bid = Inr f \<longrightarrow> 0 \<le> f)
   \<and> ((dict_get (books L) bid = None
        \<or> (\<exists>b. dict_get (books L) bid = Some b \<and> (is_available b \<or> due_date b = None)))
      \<longrightarrow> calculate_fine now L bid = Inr 0)
   \<and> (\<forall>now' f f'. now \<le> now' \<and> calculate_fine now L bid = Inr f
        \<and> calculate_fine now' L bid = Inr f' \<longrightarrow> f \<le> f')"
proof (intro conjI allI impI)
  fix b s due
  assume "dict_get (books L) bid = Some b \<and> \<not> is_available b \<and> due_date b = Some s
        \<and> s \<noteq> [] \<and> strptime_ymd s = Inr due"
  then show "calculate_fine now L bid =
        Inr (if 0 < timedelta_days now (midnight due)
             then real_of_int (timedelta_days now (midnight due)) * fine_rate else 0)"
    by (simp add: calculate_fine_def opt_truthy_def Let_def)
next
  fix f
  assume "calculate_fine now L bid = Inr f"
  then show "0 \<le> f"
    by (auto simp: calculate_fine_def opt_truthy_def Let_def fine_rate_def
        split: option.splits if_splits sum.splits)
next
  assume "dict_get (books L) bid = None
        \<or> (\<exists>b. dict_get (books L) bid = Some b \<and> (is_available b \<or> due_date b = None))"
  then show "calculate_fine now L bid = Inr 0"
    by (auto simp: calculate_fine_def opt_truthy_def)
next
  fix now' f f'
  assume a: "now \<le> now' \<and> calculate_fine now L bid = Inr f
        \<and> calculate_fine now' L bid = Inr f'"
  then have le: "now \<le> now'" and f: "calculate_fine now L bid = Inr f"
    and f': "calculate_fine now' L bid = Inr f'"
    by simp_all
  from calculate_fine_cases [of L bid] show "f \<le> f'"
  proof (elim disjE exE)
    assume "\<forall>t. calculate_fine t L bid = Inr 0"
    with f f' show ?thesis by simp
  next
    fix e assume "\<forall>t. calculate_fine t L bid = Inl e"
    with f show ?thesis by simp
  next
    fix due
    assume c: "\<forall>t. calculate_fine t L bid =
         Inr (if 0 < timedelta_days t (midnight due)
              then real_of_int (timedelta_days t (midnight due)) * fine_rate else 0)"
    have "timedelta_days now (midnight due) \<le> timedelta_days now' (midnight due)"
      by (rule timedelta_days_mono [OF le])
    with f f' c show ?thesis by (auto simp: fine_rate_def split: if_splits)
  qed
qed

theorem calculate_fine_clamped_witness:
  "calculate_fine noon_jan_17 demo_library ''B1'' = Inr 2
   \<and> calculate_fine noon_jan_1 demo_library ''B1'' = Inr 0
   \<and> calculate_fine noon_jan_17 demo_library ''B2'' = Inr 0"
proof -
  have p: "strptime_ymd ''2024-01-15'' = Inr 738900"
    by (simp add: strptime_ymd_def is_digit_def digit_val_def in_range_def valid_date_def
        ymd2ord_def month_lengths_def is_leap_def days_before_year_def days_before_month_def)
  have g: "dict_get (books demo_library) ''B1'' = Some \<lparr>book_id = ''B1'', title = ''Python Programming'',
      author = ''John Smith'', is_available = False, borrower = Some ''M1'',
      due_date = Some ''2024-01-15''\<rparr>"
    by (simp add: demo_library_def dict_get_def)
  have t17: "timedelta_days noon_jan_17 (midnight 738900) = 2"
    by (simp add: timedelta_days_def midnight_def noon_jan_17_def us_per_day_def)
  have t1: "timedelta_days noon_jan_1 (midnight 738900) = - 14"
    by (simp add: timedelta_days_def midnight_def noon_jan_1_def us_per_day_def)
  have g2: "dict_get (books demo_library) ''B2'' = Some (Book ''B2'' ''Data Structures'' ''Jane Doe'')"
    by (simp add: demo_library_def dict_get_def)
  show ?thesis
    using calculate_fine_clamped [of demo_library "''B1''" noon_jan_17]
      calculate_fine_clamped [of demo_library "''B1''" noon_jan_1]
      calculate_fine_clamped [of demo_library "''B2''" noon_jan_17]
    by (simp add: g g2 p t17 t1 fine_rate_def Book_def)
qed

section \<open>Borrowing\<close>

lemma strftime_nonempty: "strftime_ymd n \<noteq> []"
  by (simp add: strftime_ymd_def split: prod.splits)

lemma borrow_book_ok:
  assumes b: "dict_get (books L) bid = Some b"
    and m: "dict_get (members L) mid = Some m"
    and a: "is_available b"
    and t: "now + 14 * us_per_day \<le> datetime_max"
  shows "borrow_book now bid mid (L, D) =
     (let L' = L\<lparr>books := dict_set bid
                   (b\<lparr>is_available := False, borrower := Some mid,
                      due_date := Some (strftime_ymd (toordinal now + 14))\<rparr>) (books L),
                 members := dict_set mid
                   (m\<lparr>borrowed_books := borrowed_books m @ [bid]\<rparr>) (members L)\<rparr>
      in (Inr True, L', save_data L' D))"
  using assms toordinal_add_days [of now 14]
  by (simp add: borrow_book_def add_days_def Let_def)

lemma borrow_book_True:
  assumes "borrow_book now bid mid (L, D) = (Inr True, L1, D1)"
  shows "\<exists>b m. dict_get (books L) bid = Some b \<and> dict_get (members L) mid = Some m
     \<and> is_available b \<and> now + 14 * us_per_day \<le> datetime_max"
  using assms
  by (auto simp: borrow_book_def add_days_def Let_def split: option.splits if_splits)

lemma due_date_parses:
  assumes "now + 14 * us_per_day \<le> datetime_max"
  shows "strptime_ymd (strftime_ymd (toordinal now + 14)) = Inr (toordinal now + 14)"
proof -
  have "toordinal (now + 14 * us_per_day) \<le> max_ordinal"
    using toordinal_bounds [OF assms] by simp
  then have "toordinal now + 14 \<le> max_ordinal" by (simp add: toordinal_add_days)
  then show ?thesis by (simp add: strptime_strftime)
qed

lemma strftime_jan_15: "strftime_ymd 738900 = ''2024-01-15''"
  by (simp add: strftime_ymd_def ord2ymd_def Let_def month_lengths_def is_leap_def digit_eq_char)

lemma shelf_B1:
  "dict_get (books shelf_library) ''B1'' = Some (Book ''B1'' ''Python Programming'' ''John Smith'')"
  by (simp add: shelf_library_def dict_get_def)

lemma shelf_M1:
  "dict_get (members shelf_library) ''M1'' = Some (Member ''M1'' ''Alice Brown'' ''alice@email.com'')"
  by (simp add: shelf_library_def dict_get_def)

lemma B1_available: "is_available (Book ''B1'' ''Python Programming'' ''John Smith'')"
  by (simp add: Book_def)

lemma noon_jan_1_in_range: "noon_jan_1 + 14 * us_per_day \<le> datetime_max"
  by (simp add: noon_jan_1_def us_per_day_def datetime_max_def max_ordinal_def)

lemma noon_jan_1_due: "toordinal noon_jan_1 + 14 = 738900"
  by (simp add: toordinal_def noon_jan_1_def us_per_day_def)

lemma shelf_after_loan:
  "shelf_library\<lparr>books := dict_set ''B1''
       (Book ''B1'' ''Python Programming'' ''John Smith''
          \<lparr>is_available := False, borrower := Some ''M1'', due_date := Some ''2024-01-15''\<rparr>)
       (books shelf_library),
     members := dict_set ''M1''
       (Member ''M1'' ''Alice Brown'' ''alice@email.com''
          \<lparr>borrowed_books :=
             borrowed_books (Member ''M1'' ''Alice Brown'' ''alice@email.com'') @ [''B1'']\<rparr>)
       (members shelf_library)\<rparr> = demo_library"
  by (simp add: shelf_library_def demo_library_def Book_def Member_def)

lemma borrow_demo:
  "borrow_book noon_jan_1 ''B1'' ''M1'' (shelf_library, empty_disk) =
     (Inr True, demo_library, save_data demo_library empty_disk)"
  using borrow_book_ok [OF shelf_B1 shelf_M1 B1_available noon_jan_1_in_range, of empty_disk]
  unfolding noon_jan_1_due strftime_jan_15 Let_def shelf_after_loan
  by simp

text \<open>
  Claim C5. When the book and the member exist and the book is available,
  \<^verbatim>\<open>borrow_book\<close> marks the book unavailable, records the borrower, sets the due date
  to the date fourteen days after today (the string written is the one that reads
  back as that date), appends the book's id to the member's list, writes the new
  state to the file once and returns \<^verbatim>\<open>True\<close>. The clock is taken to be at least
  fourteen days before the last \<^verbatim>\<open>datetime\<close>, so that the due date exists.
\<close>

theorem borrow_book_success:
  assumes "dict_get (books L) bid = Some b"
    and "dict_get (members L) mid = Some m"
    and "is_available b"
    and "now + 14 * us_per_day \<le> datetime_max"
  shows "borrow_book now bid mid (L, D) =
     (let due = strftime_ymd (toordinal now + 14);
          L' = L\<lparr>books := dict_set bid
                   (b\<lparr>is_available := False, borrower := Some mid, due_date := Some due\<rparr>)
                   (books L),
                 members := dict_set mid
                   (m\<lparr>borrowed_books := borrowed_books m @ [bid]\<rparr>) (members L)\<rparr>
      in (Inr True, L', \<lparr>content = Parsed (dump L'), writes = writes D + 1\<rparr>))
     \<and> strptime_ymd (strftime_ymd (toordinal now + 14)) = Inr (toordinal now + 14)
     \<and> dict_get (books (fst (snd (borrow_book now bid mid (L, D))))) bid =
         Some (b\<lparr>is_available := False, borrower := Some mid,
                 due_date := Some (strftime_ymd (toordinal now + 14))\<rparr>)
     \<and> dict_get (members (fst (snd (borrow_book now bid mid (L, D))))) mid =
         Some (m\<lparr>borrowed_books := borrowed_books m @ [bid]\<rparr>)"
  using borrow_book_ok [OF assms, of D] due_date_parses [OF assms(4)]
  by (simp add: Let_def save_data_def dict_get_set)

theorem borrow_book_success_witness:
  "borrow_book noon_jan_1 ''B1'' ''M1'' (shelf_library, empty_disk) =
     (Inr True, demo_library, \<lparr>content = Parsed (dump demo_library), writes = 1\<rparr>)
   \<and> strptime_ymd ''2024-01-15'' = Inr 738900"
  using borrow_book_success [OF shelf_B1 shelf_M1 B1_available noon_jan_1_in_range, of empty_disk]
  unfolding noon_jan_1_due strftime_jan_15 Let_def shelf_after_loan
  by (simp add: empty_disk_def)

section \<open>Borrowing and returning\<close>

lemma calculate_fine_parses:
  assumes "dict_get (books L) bid = Some b" and "\<not> is_available b"
    and "due_date b = Some s" and "s \<noteq> []" and "strptime_ymd s = Inr due"
  shows "\<exists>f. calculate_fine now L bid = Inr f"
  using assms by (simp add: calculate_fine_def opt_truthy_def Let_def)

text \<open>
  Claim C2. In a store where the book and the member exist and the book is
  available, after a successful \<^verbatim>\<open>borrow_book\<close> a \<^verbatim>\<open>return_book\<close> at any time succeeds
  and leaves the book available, without borrower and due date, its id, title and
  author as they were; the member's list is the list after the loan with the first
  occurrence of the id removed, which is the list before the loan when the id was
  not in it.
\<close>

theorem borrow_then_return_round_trip:
  assumes b: "dict_get (books L) bid = Some b"
    and m: "dict_get (members L) mid = Some m"
    and a: "is_available b"
    and ok: "borrow_book now bid mid (L, D) = (Inr True, L1, D1)"
  shows "\<exists>fine L2 D2.
       return_book now' bid (L1, D1) = (Inr (True, fine), L2, D2)
     \<and> dict_get (books L2) bid =
         Some (b\<lparr>is_available := True, borrower := None, due_date := None\<rparr>)
     \<and> dict_get (members L2) mid =
         Some (m\<lparr>borrowed_books := remove1 bid (borrowed_books m @ [bid])\<rparr>)
     \<and> (bid \<notin> set (borrowed_books m) \<longrightarrow> dict_get (members L2) mid = Some m)"
proof -
  from borrow_book_True [OF ok] b m have t: "now + 14 * us_per_day \<le> datetime_max" by auto
  define due where "due = strftime_ymd (toordinal now + 14)"
  define b1 where "b1 = b\<lparr>is_available := False, borrower := Some mid, due_date := Some due\<rparr>"
  define m1 where "m1 = m\<lparr>borrowed_books := borrowed_books m @ [bid]\<rparr>"
  have L1: "L1 = L\<lparr>books := dict_set bid b1 (books L), members := dict_set mid m1 (members L)\<rparr>"
    and D1: "D1 = save_data L1 D"
    using borrow_book_ok [OF b m a t, of D] ok by (simp_all add: Let_def b1_def m1_def due_def)
  have gb: "dict_get (books L1) bid = Some b1" by (simp add: L1 dict_get_set)
  have gm: "dict_get (members L1) mid = Some m1" by (simp add: L1 dict_get_set)
  have "due \<noteq> []" by (simp add: due_def strftime_nonempty)
  moreover have "strptime_ymd due = Inr (toordinal now + 14)"
    unfolding due_def by (rule due_date_parses [OF t])
  ultimately obtain f where f: "calculate_fine now' L1 bid = Inr f"
    using calculate_fine_parses [OF gb, of due "toordinal now + 14" now'] by (auto simp: b1_def)
  have nb: "remove1 bid (borrowed_books m @ [bid]) = borrowed_books m" if "bid \<notin> set (borrowed_books m)"
    using that by (simp add: remove1_append)
  show ?thesis
    using gb gm f nb
    by (simp add: return_book_def Let_def b1_def m1_def dict_get_set)
qed

theorem borrow_then_return_round_trip_witness:
  "\<exists>fine L2 D2.
       return_book noon_jan_17 ''B1'' (demo_library, save_data demo_library empty_disk) =
         (Inr (True, fine), L2, D2)
     \<and> dict_get (books L2) ''B1'' = Some (Book ''B1'' ''Python Programming'' ''John Smith'')
     \<and> dict_get (members L2) ''M1'' = Some (Member ''M1'' ''Alice Brown'' ''alice@email.com'')"
  using borrow_then_return_round_trip
    [OF shelf_B1 shelf_M1 B1_available borrow_demo, of noon_jan_17]
  by (simp add: Book_def Member_def)

end
